theory Spec2Isabelle
  imports Complex_Main
begin

section \<open>NumPy float64 values\<close>

text \<open>
  The arrays of \<^verbatim>\<open>zcant/core.pyx\<close> hold IEEE-754 doubles. A value is a finite number,
  one of the two infinities, or NaN. Finite values are reals and arithmetic on them is
  exact: rounding, overflow of a finite result and the sign of zero are not modelled,
  except in the writer, where the rounding of a product decides the integer written and is
  a parameter of the model.
  The special values follow IEEE-754, which is what decides the branches of the code
  (\<^verbatim>\<open>np.isnan\<close>, comparisons with NaN, division by zero, \<^verbatim>\<open>log2\<close> of zero).
\<close>

datatype fl = Fin real | PInf | NInf | NaN

fun fl_isnan :: "fl \<Rightarrow> bool" where
  "fl_isnan NaN = True"
| "fl_isnan _ = False"

fun fl_isfinite :: "fl \<Rightarrow> bool" where
  "fl_isfinite (Fin _) = True"
| "fl_isfinite _ = False"

fun fl_neg :: "fl \<Rightarrow> fl" where
  "fl_neg (Fin a) = Fin (- a)"
| "fl_neg PInf = NInf"
| "fl_neg NInf = PInf"
| "fl_neg NaN = NaN"

fun fl_add :: "fl \<Rightarrow> fl \<Rightarrow> fl" where
  "fl_add NaN _ = NaN"
| "fl_add _ NaN = NaN"
| "fl_add (Fin a) (Fin b) = Fin (a + b)"
| "fl_add PInf NInf = NaN"
| "fl_add NInf PInf = NaN"
| "fl_add PInf _ = PInf"
| "fl_add _ PInf = PInf"
| "fl_add NInf _ = NInf"
| "fl_add _ NInf = NInf"

definition fl_sub :: "fl \<Rightarrow> fl \<Rightarrow> fl" where
  "fl_sub a b = fl_add a (fl_neg b)"

fun fl_mul :: "fl \<Rightarrow> fl \<Rightarrow> fl" where
  "fl_mul NaN _ = NaN"
| "fl_mul _ NaN = NaN"
| "fl_mul (Fin a) (Fin b) = Fin (a * b)"
| "fl_mul (Fin a) PInf = (if a = 0 then NaN else if 0 < a then PInf else NInf)"
| "fl_mul (Fin a) NInf = (if a = 0 then NaN else if 0 < a then NInf else PInf)"
| "fl_mul PInf (Fin b) = (if b = 0 then NaN else if 0 < b then PInf else NInf)"
| "fl_mul NInf (Fin b) = (if b = 0 then NaN else if 0 < b then NInf else PInf)"
| "fl_mul PInf PInf = PInf"
| "fl_mul NInf NInf = PInf"
| "fl_mul PInf NInf = NInf"
| "fl_mul NInf PInf = NInf"

fun fl_div :: "fl \<Rightarrow> fl \<Rightarrow> fl" where
  "fl_div NaN _ = NaN"
| "fl_div _ NaN = NaN"
| "fl_div (Fin a) (Fin b) =
     (if b \<noteq> 0 then Fin (a / b)
      else if 0 < a then PInf else if a < 0 then NInf else NaN)"
| "fl_div (Fin a) _ = Fin 0"
| "fl_div PInf (Fin b) = (if 0 \<le> b then PInf else NInf)"
| "fl_div NInf (Fin b) = (if 0 \<le> b then NInf else PInf)"
| "fl_div _ _ = NaN"

fun fl_abs :: "fl \<Rightarrow> fl" where
  "fl_abs (Fin a) = Fin \<bar>a\<bar>"
| "fl_abs PInf = PInf"
| "fl_abs NInf = PInf"
| "fl_abs NaN = NaN"

fun fl_log2 :: "fl \<Rightarrow> fl" where
  "fl_log2 (Fin a) = (if 0 < a then Fin (log 2 a) else if a = 0 then NInf else NaN)"
| "fl_log2 PInf = PInf"
| "fl_log2 NInf = NaN"
| "fl_log2 NaN = NaN"

text \<open>Comparisons: every comparison with NaN is false.\<close>

fun fl_less :: "fl \<Rightarrow> fl \<Rightarrow> bool" where
  "fl_less NaN _ = False"
| "fl_less _ NaN = False"
| "fl_less (Fin a) (Fin b) = (a < b)"
| "fl_less _ NInf = False"
| "fl_less PInf _ = False"
| "fl_less _ _ = True"

fun fl_le :: "fl \<Rightarrow> fl \<Rightarrow> bool" where
  "fl_le NaN _ = False"
| "fl_le _ NaN = False"
| "fl_le (Fin a) (Fin b) = (a \<le> b)"
| "fl_le NInf _ = True"
| "fl_le _ PInf = True"
| "fl_le _ _ = False"

definition fl_gt :: "fl \<Rightarrow> fl \<Rightarrow> bool" where
  "fl_gt a b = fl_less b a"

definition fl_ge :: "fl \<Rightarrow> fl \<Rightarrow> bool" where
  "fl_ge a b = fl_le b a"

text \<open>Truth value of a float (\<^verbatim>\<open>np.any\<close>): everything but zero is true, NaN included.\<close>

fun fl_truthy :: "fl \<Rightarrow> bool" where
  "fl_truthy (Fin a) = (a \<noteq> 0)"
| "fl_truthy _ = True"

section \<open>NumPy and Python primitives used by the core\<close>

text \<open>\<^verbatim>\<open>a[i:j]\<close> for indices \<open>0 \<le> i\<close>, \<open>0 \<le> j\<close>: empty when \<open>j \<le> i\<close>, clipped at the end.\<close>

definition py_slice :: "'a list \<Rightarrow> nat \<Rightarrow> nat \<Rightarrow> 'a list" where
  "py_slice xs i j = take (j - i) (drop i xs)"

text \<open>\<^verbatim>\<open>np.diff\<close>: successive differences, one element shorter than its argument.\<close>

fun np_diff :: "fl list \<Rightarrow> fl list" where
  "np_diff (a # b # xs) = fl_sub b a # np_diff (b # xs)"
| "np_diff _ = []"

text \<open>
  \<^verbatim>\<open>np.insert(arr, i, v)\<close> for an index in range (\<open>- len \<le> i \<le> len\<close>); the core calls it
  with index 0, and with index -1 on an array that is not empty. A negative index counts
  from the end, so index -1 inserts before the last element.
\<close>

definition np_insert :: "'a list \<Rightarrow> int \<Rightarrow> 'a \<Rightarrow> 'a list" where
  "np_insert xs i v =
     (let k = nat (if i < 0 then i + int (length xs) else i)
      in take k xs @ [v] @ drop k xs)"

definition np_append :: "'a list \<Rightarrow> 'a \<Rightarrow> 'a list" where
  "np_append xs v = xs @ [v]"

fun cumsum_from :: "fl \<Rightarrow> fl list \<Rightarrow> fl list" where
  "cumsum_from acc [] = []"
| "cumsum_from acc (x # xs) = fl_add acc x # cumsum_from (fl_add acc x) xs"

fun np_cumsum :: "fl list \<Rightarrow> fl list" where
  "np_cumsum [] = []"
| "np_cumsum (x # xs) = x # cumsum_from x xs"

definition np_zeros :: "nat \<Rightarrow> fl list" where
  "np_zeros n = replicate n (Fin 0)"

text \<open>
  \<^verbatim>\<open>bisect.bisect\<close> (\<^verbatim>\<open>bisect_right\<close> of the Python standard library): binary search
  with \<^verbatim>\<open>lo = 0\<close>, \<^verbatim>\<open>hi = len(a)\<close>; the loop reads \<^verbatim>\<open>a[mid]\<close> only for \<open>mid < hi\<close>.
\<close>

function bisect_loop :: "fl list \<Rightarrow> fl \<Rightarrow> nat \<Rightarrow> nat \<Rightarrow> nat" where
  "bisect_loop a x lo hi =
     (if lo < hi then
        (let mid = (lo + hi) div 2
         in if fl_less x (a ! mid) then bisect_loop a x lo mid
            else bisect_loop a x (mid + 1) hi)
      else lo)"
  by pat_completeness auto
termination
  by (relation "measure (\<lambda>(a, x, lo, hi). hi - lo)") auto

definition bisect :: "fl list \<Rightarrow> fl \<Rightarrow> nat" where
  "bisect a x = bisect_loop a x 0 (length a)"

section \<open>The ZeroCross signal\<close>

text \<open>
  Names follow the source: \<open>ZeroCross_init\<close>, \<open>getitem\<close> and \<open>len_zc\<close> are \<^verbatim>\<open>__init__\<close>,
  \<^verbatim>\<open>__getitem__\<close> and \<^verbatim>\<open>__len__\<close>; \<open>smooth\<close> and \<open>slopes\<close> are \<^verbatim>\<open>_smooth\<close> and \<^verbatim>\<open>_slopes\<close>;
  the field \<^verbatim>\<open>times\<close> is \<open>times_zc\<close>.
\<close>

text \<open>Metadata values are Python objects; only their truth value and identity matter here.\<close>

datatype pyval = PyNone | PyBool bool | PyInt int | PyStr string | PyObject nat

fun truthy :: "pyval \<Rightarrow> bool" where
  "truthy PyNone = False"
| "truthy (PyBool b) = b"
| "truthy (PyInt n) = (n \<noteq> 0)"
| "truthy (PyStr s) = (s \<noteq> [])"
| "truthy (PyObject _) = True"

record ZeroCross =
  times_zc :: "fl list"
  freqs :: "fl list"
  amplitudes :: "fl list option"
  metadata :: "string \<rightharpoonup> pyval"

text \<open>
  The \<^verbatim>\<open>ValueError\<close>s of the constructor carry the two lengths of the message
  (\<^verbatim>\<open>'times (%d) and freqs (%d) disagree'\<close>, \<^verbatim>\<open>'times (%d) and amplitudes (%d) disagree'\<close>).
  \<open>BroadcastError\<close> is NumPy's \<^verbatim>\<open>ValueError\<close> for two shapes that cannot be broadcast
  together, \<open>IndexError\<close> the read of \<^verbatim>\<open>a[-1]\<close> on an empty array, \<open>OSError\<close> the failure
  of \<^verbatim>\<open>os.makedirs\<close> on the path it carries.
\<close>

datatype error =
    TimesFreqsDisagree nat nat
  | TimesAmplitudesDisagree nat nat
  | BroadcastError nat nat
  | IndexError
  | OSError string

definition ZeroCross_init ::
  "fl list \<Rightarrow> fl list \<Rightarrow> fl list option \<Rightarrow> (string \<rightharpoonup> pyval) \<Rightarrow> error + ZeroCross" where
  "ZeroCross_init ts fs amps md =
     (if length ts \<noteq> length fs then Inl (TimesFreqsDisagree (length ts) (length fs))
      else case amps of
        Some a \<Rightarrow>
          if length ts \<noteq> length a then Inl (TimesAmplitudesDisagree (length ts) (length a))
          else Inr \<lparr>times_zc = ts, freqs = fs, amplitudes = amps, metadata = md\<rparr>
      | None \<Rightarrow> Inr \<lparr>times_zc = ts, freqs = fs, amplitudes = amps, metadata = md\<rparr>)"

definition supports_amplitude :: "ZeroCross \<Rightarrow> bool" where
  "supports_amplitude zc = (amplitudes zc \<noteq> None)"

definition len_zc :: "ZeroCross \<Rightarrow> nat" where
  "len_zc zc = length (times_zc zc)"

text \<open>\<^verbatim>\<open>__getitem__\<close> with a slice \<^verbatim>\<open>[i:j]\<close>: a new object, built by the constructor.\<close>

definition getitem :: "ZeroCross \<Rightarrow> nat \<Rightarrow> nat \<Rightarrow> error + ZeroCross" where
  "getitem zc i j =
     (let amps = (if supports_amplitude zc
                  then Some (py_slice (the (amplitudes zc)) i j) else None)
      in ZeroCross_init (py_slice (times_zc zc) i j) (py_slice (freqs zc) i j) amps
           (metadata zc))"

text \<open>
  The three branches of \<^verbatim>\<open>windowed\<close> that choose the index range; \<^verbatim>\<open>times[-1]\<close> is read
  only when there are at least two dots.
\<close>

definition window_range :: "fl list \<Rightarrow> fl \<Rightarrow> fl \<Rightarrow> nat \<times> nat" where
  "window_range ts start duration =
     (if fl_ge (fl_sub (last ts) start) duration then
        (bisect ts start, bisect ts (fl_add start duration))
      else if fl_ge duration (last ts) then
        (0, length ts - 1)
      else
        (bisect ts (fl_sub (last ts) duration), length ts - 1))"

definition windowed :: "ZeroCross \<Rightarrow> fl \<Rightarrow> fl \<Rightarrow> error + ZeroCross" where
  "windowed self start duration =
     (if length (times_zc self) < 2 then Inr self
      else
        (let (window_from, window_to) = window_range (times_zc self) start duration
         in case getitem self window_from window_to of
              Inl e \<Rightarrow> Inl e
            | Inr zc \<Rightarrow>
                (let zc1 =
                       (if len_zc zc = 0 \<or> fl_gt (hd (times_zc zc)) start then
                          zc\<lparr>times_zc := np_insert (times_zc zc) 0 start,
                             freqs := np_insert (freqs zc) 0 start,
                             amplitudes :=
                               (if supports_amplitude zc
                                then Some (np_insert (the (amplitudes zc)) 0 start)
                                else None)\<rparr>
                        else zc);
                     zc2 =
                       (if fl_less (last (times_zc zc1)) (fl_add start duration) then
                          zc1\<lparr>times_zc := np_append (times_zc zc1) (fl_add start duration),
                              freqs := np_append (freqs zc1) (Fin 0),
                              amplitudes :=
                                (if supports_amplitude zc1
                                 then Some (np_append (the (amplitudes zc1)) (Fin 0))
                                 else None)\<rparr>
                        else zc1)
                 in Inr zc2)))"

section \<open>Signal math: smoothing and slopes\<close>

text \<open>\<^verbatim>\<open>np.where(np.isnan(a), 0, a)\<close> and \<^verbatim>\<open>a[np.isnan(a)] = 0.0\<close>.\<close>

definition nan_to_zero :: "fl list \<Rightarrow> fl list" where
  "nan_to_zero a = map (\<lambda>v. if fl_isnan v then Fin 0 else v) a"

text \<open>
  The replacement as the specification words it, for the comparison with the code: every
  value that is not finite (NaN and both infinities) becomes \<open>0.0\<close>.
\<close>

definition nonfinite_to_zero :: "fl list \<Rightarrow> fl list" where
  "nonfinite_to_zero a = map (\<lambda>v. if fl_isfinite v then v else Fin 0) a"

definition smooth :: "fl list \<Rightarrow> fl list" where
  "smooth slopes =
     (let WINDOW_SIZE = 3 in
      if length slopes \<le> WINDOW_SIZE then np_zeros (length slopes)
      else
        (let slopes1 = nan_to_zero slopes;
             cumsum = np_cumsum (np_insert slopes1 0 (Fin 0));
             smoothed =
               map (\<lambda>v. fl_div v (Fin (real WINDOW_SIZE)))
                 (map2 (\<lambda>a b. fl_sub a b)
                    (drop WINDOW_SIZE cumsum) (take (length cumsum - WINDOW_SIZE) cumsum));
             smoothed1 = np_insert smoothed 0 (hd smoothed);
             smoothed2 = np_insert smoothed1 (- 1) (last smoothed1)
         in smoothed2))"

text \<open>
  Elementwise division of two one-dimensional arrays: equal lengths, or one of them of
  length 1 (broadcast); any other pair of shapes raises.
\<close>

definition np_divide :: "fl list \<Rightarrow> fl list \<Rightarrow> error + fl list" where
  "np_divide a b =
     (if length a = length b then Inr (map2 (\<lambda>u v. fl_div u v) a b)
      else if length a = 1 then Inr (map (\<lambda>v. fl_div (hd a) v) b)
      else if length b = 1 then Inr (map (\<lambda>u. fl_div u (hd b)) a)
      else Inl (BroadcastError (length a) (length b)))"

definition slopes :: "fl list \<Rightarrow> fl list \<Rightarrow> fl \<Rightarrow> error + fl list" where
  "slopes x y max_slope =
     (if length x = 0 \<or> length y = 0 then Inr []
      else if length x = 1 then Inr [Fin 0]
      else
        (let y_octaves =
               (if \<not> list_ex fl_truthy y then y
                else nan_to_zero (map fl_log2 y))
         in case np_divide (np_diff y_octaves) (np_diff x) of
              Inl e \<Rightarrow> Inl e
            | Inr s \<Rightarrow>
                if s = [] then Inl IndexError
                else
                  (let s1 = np_append s (last s);
                       s2 = map fl_abs s1;
                       s3 = map (\<lambda>v. if fl_gt v max_slope then Fin 0 else v) s2;
                       s4 = nan_to_zero s3
                   in Inr s4)))"

section \<open>The Anabat writer\<close>

text \<open>
  \<^verbatim>\<open>AnabatFileWriteThread.run\<close> derives the header values from the metadata, makes sure
  that the output directory exists, and hands the header and the intervals to the writer.
  The writer class itself is outside the core: the model returns what \<^verbatim>\<open>run\<close> hands to
  \<^verbatim>\<open>write_header\<close> and \<^verbatim>\<open>write_intervals\<close>, or the error that stops it before.
\<close>

definition md_get :: "(string \<rightharpoonup> pyval) \<Rightarrow> string \<Rightarrow> pyval \<Rightarrow> pyval" where
  "md_get md k dflt = (case md k of Some v \<Rightarrow> v | None \<Rightarrow> dflt)"

text \<open>
  The file system, as far as \<^verbatim>\<open>run\<close> looks at it: the paths that exist and the paths
  that cannot be created. \<^verbatim>\<open>os.path.exists('')\<close> is false and \<^verbatim>\<open>os.makedirs('')\<close> raises,
  as \<^verbatim>\<open>os.makedirs\<close> does for a path that exists or cannot be created. The model lists the
  directory that \<^verbatim>\<open>os.makedirs\<close> creates, not the ancestors created on the way.
\<close>

record filesystem =
  paths :: "string list"
  refused :: "string list"

definition path_exists :: "filesystem \<Rightarrow> string \<Rightarrow> bool" where
  "path_exists fs p = (p \<noteq> [] \<and> p \<in> set (paths fs))"

definition makedirs :: "filesystem \<Rightarrow> string \<Rightarrow> error + filesystem" where
  "makedirs fs p =
     (if p = [] \<or> p \<in> set (paths fs) \<or> p \<in> set (refused fs) then Inl (OSError p)
      else Inr (fs\<lparr>paths := p # paths fs\<rparr>))"

text \<open>
  \<^verbatim>\<open>os.path.dirname\<close> (POSIX): the path up to its last slash, without the trailing slashes
  unless it consists of slashes only; empty when the path has no slash.
\<close>

definition dirname :: "string \<Rightarrow> string" where
  "dirname p =
     (let head = rev (dropWhile (\<lambda>c. c \<noteq> CHR ''/'') (rev p))
      in if head \<noteq> [] \<and> \<not> list_all (\<lambda>c. c = CHR ''/'') head
         then rev (dropWhile (\<lambda>c. c = CHR ''/'') (rev head))
         else head)"

text \<open>
  The product \<^verbatim>\<open>times * 1000000\<close> and the differences of \<^verbatim>\<open>np.diff\<close> are float64
  operations: each gives the exact result rounded to a double. Whether a difference lands
  on an integer or just below it depends on that rounding, so here it is not left out:
  the rounding \<open>rnd\<close> of an exact real to a double (an infinity on overflow) is a
  parameter of \<^verbatim>\<open>run\<close>, and what is proved holds for every rounding.
\<close>

definition fl_round :: "(real \<Rightarrow> fl) \<Rightarrow> fl \<Rightarrow> fl" where
  "fl_round rnd v = (case v of Fin r \<Rightarrow> rnd r | _ \<Rightarrow> v)"

text \<open>
  \<^verbatim>\<open>astype(int)\<close> is the C conversion of a double to a 64-bit integer: it drops the
  fraction (truncation toward zero). The conversion of NaN, of an infinity and of a value
  outside the integer range is undefined in C; the model gives \<open>None\<close> there.
\<close>

fun astype_int :: "fl \<Rightarrow> int option" where
  "astype_int (Fin r) =
     (let t = (if 0 \<le> r then \<lfloor>r\<rfloor> else \<lceil>r\<rceil>)
      in if - (2 ^ 63) \<le> t \<and> t < 2 ^ 63 then Some t else None)"
| "astype_int _ = None"

text \<open>
  The first part of \<^verbatim>\<open>run\<close>: the header values, derived from the metadata before any
  file is touched.
\<close>

record header_args =
  hdr_timestamp :: pyval
  hdr_species :: pyval
  hdr_note1 :: pyval
  hdr_note2 :: pyval
  hdr_guano :: "(string \<times> fl list) list option"

definition header_fields :: "ZeroCross \<Rightarrow> header_args" where
  "header_fields zc =
     (let md = metadata zc;
          timestamp = md_get md ''timestamp'' PyNone;
          species = md_get md ''species'' (PyStr '''');
          note1 = md_get md ''note1'' (PyStr '''');
          (note1', note2) =
            (if truthy note1 then (note1, PyStr ''Myotisoft ZCANT'')
             else (PyStr ''Myotisoft ZCANT'', PyStr ''''));
          guano =
            (if supports_amplitude zc
             then Some [(''ZCANT|Amplitudes'', the (amplitudes zc))] else None)
      in \<lparr>hdr_timestamp = timestamp, hdr_species = species, hdr_note1 = note1',
          hdr_note2 = note2, hdr_guano = guano\<rparr>)"

record writer_calls =
  out_fname :: string
  hdr_divratio :: int
  header :: header_args
  intervals :: "int option list"

definition run ::
  "(real \<Rightarrow> fl) \<Rightarrow> filesystem \<Rightarrow> ZeroCross \<Rightarrow> string \<Rightarrow> int
     \<Rightarrow> error + filesystem \<times> writer_calls" where
  "run rnd fs zc fname divratio =
     (let hdr = header_fields zc;
          outdir = dirname fname
      in case (if \<not> path_exists fs outdir then makedirs fs outdir else Inr fs) of
           Inl e \<Rightarrow> Inl e
         | Inr fs' \<Rightarrow>
             (let time_indexes_us =
                    map (\<lambda>t. fl_round rnd (fl_mul t (Fin 1000000))) (times_zc zc);
                  intervals_us = map (fl_round rnd) (np_diff time_indexes_us)
              in Inr (fs', \<lparr>out_fname = fname, hdr_divratio = divratio, header = hdr,
                            intervals = map astype_int intervals_us\<rparr>)))"

text \<open>
  The body as the specification words it: for each pair of neighbouring dots, the
  difference of their times in microseconds (float64 product and difference), truncated
  toward zero.
\<close>

definition trunc_toward_zero :: "real \<Rightarrow> int" where
  "trunc_toward_zero r = (if r < 0 then - \<lfloor>\<bar>r\<bar>\<rfloor> else \<lfloor>\<bar>r\<bar>\<rfloor>)"

definition truncated :: "fl \<Rightarrow> int option" where
  "truncated v =
     (case v of
        Fin r \<Rightarrow>
          if - (2 ^ 63) \<le> trunc_toward_zero r \<and> trunc_toward_zero r < 2 ^ 63
          then Some (trunc_toward_zero r) else None
      | _ \<Rightarrow> None)"

definition spec_intervals_us :: "(real \<Rightarrow> fl) \<Rightarrow> real list \<Rightarrow> int option list" where
  "spec_intervals_us rnd ts =
     map (\<lambda>i. truncated
                (fl_round rnd (fl_sub (rnd (ts ! Suc i * 1000000)) (rnd (ts ! i * 1000000)))))
       [0..<length ts - 1]"

section \<open>Construction\<close>

lemma ZeroCross_init_Inr_iff:
  "ZeroCross_init ts fs amps md = Inr zc \<longleftrightarrow>
     length ts = length fs \<and> (\<forall>a. amps = Some a \<longrightarrow> length ts = length a) \<and>
     zc = \<lparr>times_zc = ts, freqs = fs, amplitudes = amps, metadata = md\<rparr>"
  by (auto simp: ZeroCross_init_def split: option.splits)

text \<open>
  Claim C5. Constructing a ZeroCross whose times and freqs have different lengths, or
  whose amplitudes are present with a length different from times, fails with the
  shape-mismatch error of the constructor, and no ZeroCross value is produced.
\<close>

theorem init_rejects_shape_mismatch:
  assumes "length ts \<noteq> length fs \<or> (amps = Some a \<and> length ts \<noteq> length a)"
  shows "ZeroCross_init ts fs amps md =
           (if length ts \<noteq> length fs then Inl (TimesFreqsDisagree (length ts) (length fs))
            else Inl (TimesAmplitudesDisagree (length ts) (length a)))
         \<and> (\<forall>zc. ZeroCross_init ts fs amps md \<noteq> Inr zc)"
  using assms by (auto simp: ZeroCross_init_def)

theorem init_rejects_shape_mismatch_witness:
  "length [Fin 0, Fin 1] \<noteq> length [Fin 40]
   \<and> ZeroCross_init [Fin 0, Fin 1] [Fin 40] None Map.empty = Inl (TimesFreqsDisagree 2 1)
   \<and> length [Fin 0, Fin 1] \<noteq> length [Fin 7]
   \<and> ZeroCross_init [Fin 0, Fin 1] [Fin 40, Fin 41] (Some [Fin 7]) Map.empty
       = Inl (TimesAmplitudesDisagree 2 1)"
  using init_rejects_shape_mismatch [of "[Fin 0, Fin 1]" "[Fin 40]" None "[]" Map.empty]
    init_rejects_shape_mismatch
      [of "[Fin 0, Fin 1]" "[Fin 40, Fin 41]" "Some [Fin 7]" "[Fin 7]" Map.empty]
  by simp

section \<open>Smoothing\<close>

text \<open>
  Claim C8. For every input whose length is at most the window size 3, smooth returns an
  all-zero sequence of the same length as the input.
\<close>

theorem smooth_short:
  "length xs \<le> 3 \<Longrightarrow> smooth xs = replicate (length xs) (Fin 0)"
  by (simp add: smooth_def np_zeros_def)

theorem smooth_short_witness:
  "length [Fin 5, NaN, PInf] \<le> 3 \<and> smooth [Fin 5, NaN, PInf] = [Fin 0, Fin 0, Fin 0]
   \<and> smooth [] = []"
  using smooth_short [of "[Fin 5, NaN, PInf]"] smooth_short [of "[]"]
  by (simp add: numeral_3_eq_3)

section \<open>Windowing: binary search and slices\<close>









text \<open>
  The result of \<open>windowed\<close> on a constructed signal with at least two dots: the sliced
  arrays, a leading dot when the slice is empty or starts after \<open>start\<close>, and a trailing
  dot when the last time is before \<open>start + duration\<close>.
\<close>

lemma getitem_init:
  assumes "ZeroCross_init ts fs amps md = Inr zc"
  shows "getitem zc i j =
           Inr \<lparr>times_zc = py_slice ts i j, freqs = py_slice fs i j,
                amplitudes = map_option (\<lambda>a. py_slice a i j) amps, metadata = md\<rparr>"
proof -
  from assms have len: "length ts = length fs" "\<And>a. amps = Some a \<Longrightarrow> length ts = length a"
    and zc: "zc = \<lparr>times_zc = ts, freqs = fs, amplitudes = amps, metadata = md\<rparr>"
    by (simp_all add: ZeroCross_init_Inr_iff)
  show ?thesis
  proof (cases amps)
    case None
    then show ?thesis
      using len zc by (simp add: getitem_def supports_amplitude_def ZeroCross_init_def py_slice_def)
  next
    case (Some a)
    then show ?thesis
      using len zc by (simp add: getitem_def supports_amplitude_def ZeroCross_init_def py_slice_def)
  qed
qed

lemma windowed_eq:
  assumes init: "ZeroCross_init ts fs amps md = Inr zc"
    and two: "2 \<le> length ts"
    and range: "window_range ts start duration = (i, j)"
    and lead: "lead = (py_slice ts i j = [] \<or> fl_less start (hd (py_slice ts i j)))"
    and trail: "trail = fl_less (last ((if lead then [start] else []) @ py_slice ts i j))
                          (fl_add start duration)"
  shows "windowed zc start duration =
           Inr \<lparr>times_zc = (if lead then [start] else []) @ py_slice ts i j
                            @ (if trail then [fl_add start duration] else []),
                freqs = (if lead then [start] else []) @ py_slice fs i j
                            @ (if trail then [Fin 0] else []),
                amplitudes = map_option (\<lambda>a. (if lead then [start] else []) @ py_slice a i j
                            @ (if trail then [Fin 0] else [])) amps,
                metadata = md\<rparr>"
proof -
  from init have zc: "zc = \<lparr>times_zc = ts, freqs = fs, amplitudes = amps, metadata = md\<rparr>"
    by (simp add: ZeroCross_init_Inr_iff)
  have g: "getitem zc i j =
           Inr \<lparr>times_zc = py_slice ts i j, freqs = py_slice fs i j,
                amplitudes = map_option (\<lambda>a. py_slice a i j) amps, metadata = md\<rparr>"
    by (rule getitem_init [OF init])
  have n2: "\<not> length (times_zc zc) < 2" using two zc by simp
  have r: "window_range (times_zc zc) start duration = (i, j)" using range zc by simp
  show ?thesis
    unfolding windowed_def
    apply (simp only: n2 r if_False Let_def prod.case g sum.case)
    apply (cases amps)
     apply (simp_all add: lead trail len_zc_def supports_amplitude_def np_insert_def
        np_append_def fl_gt_def)
    done
qed


lemma last_map_Fin: "ts \<noteq> [] \<Longrightarrow> last (map Fin ts) = Fin (last ts)"
  by (simp add: last_map)


section \<open>The normal branch of windowed\<close>



section \<open>Synthetic boundary dots\<close>

text \<open>
  Claim C10. For a ZeroCross that carries amplitudes, the synthetic leading dot that
  windowed inserts has the window start as its amplitude (the same placeholder as its
  frequency), and the synthetic trailing dot has amplitude 0 (as its frequency). The
  amplitudes are padded exactly when the times are, in every branch.
\<close>

theorem windowed_amplitude_padding:
  assumes init: "ZeroCross_init ts fs (Some a) md = Inr zc"
    and two: "2 \<le> length ts"
    and range: "window_range ts start duration = (i, j)"
    and lead: "lead = (py_slice ts i j = [] \<or> fl_gt (hd (py_slice ts i j)) start)"
    and trail: "trail = fl_less (last ((if lead then [start] else []) @ py_slice ts i j))
                          (fl_add start duration)"
  shows "\<exists>r. windowed zc start duration = Inr r
     \<and> times_zc r = (if lead then [start] else []) @ py_slice ts i j
                      @ (if trail then [fl_add start duration] else [])
     \<and> freqs r = (if lead then [start] else []) @ py_slice fs i j
                      @ (if trail then [Fin 0] else [])
     \<and> amplitudes r = Some ((if lead then [start] else []) @ py_slice a i j
                      @ (if trail then [Fin 0] else []))
     \<and> metadata r = md"
proof -
  from lead have lead': "lead = (py_slice ts i j = [] \<or> fl_less start (hd (py_slice ts i j)))"
    by (simp add: fl_gt_def)
  show ?thesis
    using windowed_eq [OF init two range lead' trail] by simp
qed

theorem windowed_amplitude_padding_witness:
  "windowed \<lparr>times_zc = [Fin 0, Fin 1, Fin 2, Fin 3, Fin 4],
             freqs = [Fin 40, Fin 41, Fin 42, Fin 43, Fin 44],
             amplitudes = Some [Fin 10, Fin 11, Fin 12, Fin 13, Fin 14],
             metadata = Map.empty\<rparr> (Fin (1/2)) (Fin 2)
     = Inr \<lparr>times_zc = [Fin (1/2), Fin 1, Fin 2, Fin (5/2)],
            freqs = [Fin (1/2), Fin 41, Fin 42, Fin 0],
            amplitudes = Some [Fin (1/2), Fin 11, Fin 12, Fin 0], metadata = Map.empty\<rparr>"
proof -
  let ?ts = "[Fin 0, Fin 1, Fin 2, Fin 3, Fin 4]"
  let ?fs = "[Fin 40, Fin 41, Fin 42, Fin 43, Fin 44]"
  let ?a = "[Fin 10, Fin 11, Fin 12, Fin 13, Fin 14]"
  let ?zc = "\<lparr>times_zc = ?ts, freqs = ?fs, amplitudes = Some ?a, metadata = Map.empty\<rparr>"
  have h1: "ZeroCross_init ?ts ?fs (Some ?a) Map.empty = Inr ?zc"
    by (simp add: ZeroCross_init_def)
  have h2: "2 \<le> length ?ts" by simp
  have h3: "window_range ?ts (Fin (1/2)) (Fin 2) = (1, 3)"
    by (simp add: window_range_def fl_ge_def fl_sub_def bisect_def)
  have h4: "True = (py_slice ?ts 1 3 = [] \<or> fl_gt (hd (py_slice ?ts 1 3)) (Fin (1/2)))"
    by (simp add: py_slice_def fl_gt_def)
  have h5: "True = fl_less (last ((if True then [Fin (1/2)] else []) @ py_slice ?ts 1 3))
                     (fl_add (Fin (1/2)) (Fin 2))"
    by (simp add: py_slice_def)
  show ?thesis
    using windowed_amplitude_padding [OF h1 h2 h3 h4 h5]
    by (elim exE conjE, rename_tac r, case_tac r) (simp add: py_slice_def)
qed

section \<open>First and last time of a window\<close>

lemma sorted_le_last:
  fixes ts :: "real list"
  assumes "sorted ts" "t \<in> set ts"
  shows "t \<le> last ts"
proof -
  from assms(2) obtain n where n: "n < length ts" "ts ! n = t"
    by (auto simp: in_set_conv_nth)
  then have ne: "ts \<noteq> []" by auto
  have "ts ! n \<le> ts ! (length ts - 1)"
    using assms(1) n by (intro sorted_nth_mono) auto
  with n ne show ?thesis by (simp add: last_conv_nth)
qed


lemma window_range_oversized:
  assumes "ts \<noteq> []" "\<not> d \<le> last ts - s" "last ts \<le> d"
  shows "window_range (map Fin ts) (Fin s) (Fin d) = (0, length ts - 1)"
  using assms by (simp add: window_range_def last_map_Fin fl_ge_def fl_sub_def)


lemma windowed_times_real:
  assumes init: "ZeroCross_init (map Fin ts) fs amps md = Inr zc" and two: "2 \<le> length ts"
    and range: "window_range (map Fin ts) (Fin s) (Fin d) = (i, j)"
    and k: "k = py_slice ts i j"
    and u: "u = (if k = [] \<or> s < hd k then [s] else []) @ k"
  shows "\<exists>r. windowed zc (Fin s) (Fin d) = Inr r
           \<and> times_zc r = map Fin (u @ (if last u < s + d then [s + d] else []))"
proof -
  have w: "py_slice (map Fin ts) i j = map Fin k"
    by (simp add: k py_slice_def take_map drop_map)
  have lead: "(k = [] \<or> s < hd k)
      = (py_slice (map Fin ts) i j = [] \<or> fl_less (Fin s) (hd (py_slice (map Fin ts) i j)))"
    by (cases k) (simp_all add: w)
  have une: "u \<noteq> []" by (simp add: u)
  have mu: "(if k = [] \<or> s < hd k then [Fin s] else []) @ py_slice (map Fin ts) i j = map Fin u"
    by (simp add: u w)
  have trail: "(last u < s + d)
      = fl_less (last ((if k = [] \<or> s < hd k then [Fin s] else []) @ py_slice (map Fin ts) i j))
          (fl_add (Fin s) (Fin d))"
    using une by (simp add: mu last_map_Fin)
  have two': "2 \<le> length (map Fin ts)" using two by simp
  have "times_zc \<lparr>times_zc = map Fin (u @ (if last u < s + d then [s + d] else [])),
          freqs = f, amplitudes = a, metadata = md\<rparr>
        = map Fin (u @ (if last u < s + d then [s + d] else []))" for f a
    by simp
  then show ?thesis
    using windowed_eq [OF init two' range lead trail] by (simp add: u w)
qed





section \<open>The window larger than the recording\<close>

text \<open>
  In the branch of a window larger than the recording the slice is \<^verbatim>\<open>[0 : len - 1]\<close>:
  on ascending times the window holds every dot but the last, and the trailing dot at
  \<open>start + duration\<close> always follows.
\<close>

lemma windowed_oversized_times:
  assumes init: "ZeroCross_init (map Fin ts) fs amps md = Inr zc"
    and srt: "sorted ts" and two: "2 \<le> length ts"
    and big: "\<not> d \<le> last ts - s" "last ts \<le> d"
  shows "\<exists>r. windowed zc (Fin s) (Fin d) = Inr r
           \<and> times_zc r = map Fin ((if s < hd ts then [s] else []) @ butlast ts @ [s + d])"
proof -
  from two have ne: "ts \<noteq> []" by auto
  define u where "u = (if butlast ts = [] \<or> s < hd (butlast ts) then [s] else []) @ butlast ts"
  have k: "butlast ts = py_slice ts 0 (length ts - 1)"
    by (simp add: py_slice_def butlast_conv_take)
  have bne: "butlast ts \<noteq> []" using two by (cases ts rule: rev_cases) auto
  then have hdb: "hd (butlast ts) = hd ts"
    using two by (simp add: butlast_conv_take)
  have "last u = last (butlast ts)" using bne by (simp add: u_def)
  also have "\<dots> \<le> last ts"
    using bne sorted_le_last [OF srt] by (meson in_set_butlastD last_in_set)
  finally have lt: "last u < s + d" using big by simp
  obtain r where "windowed zc (Fin s) (Fin d) = Inr r"
    "times_zc r = map Fin (u @ (if last u < s + d then [s + d] else []))"
    using windowed_times_real [OF init two window_range_oversized [OF ne big] k u_def] by blast
  then show ?thesis using lt bne hdb by (auto simp: u_def)
qed

text \<open>
  Claim C2, evaluated at a signal of three dots and a window of five seconds from 0: the
  branch slices \<^verbatim>\<open>[0 : len - 1]\<close>, so the last dot (time 2, frequency 42) is not in the
  returned window; only the synthetic trailing dot at \<open>start + duration\<close> follows the
  first two dots.
\<close>

theorem windowed_oversized_drops_last_dot:
  "window_range [Fin 0, Fin 1, Fin 2] (Fin 0) (Fin 5) = (0, 2)
   \<and> windowed \<lparr>times_zc = [Fin 0, Fin 1, Fin 2], freqs = [Fin 40, Fin 41, Fin 42],
                amplitudes = None, metadata = Map.empty\<rparr> (Fin 0) (Fin 5)
       = Inr \<lparr>times_zc = [Fin 0, Fin 1, Fin 5], freqs = [Fin 40, Fin 41, Fin 0],
              amplitudes = None, metadata = Map.empty\<rparr>
   \<and> (Fin 2, Fin 42) \<notin> set (zip [Fin 0, Fin 1, Fin 5] [Fin 40, Fin 41, Fin 0])"
  by (simp add: windowed_def window_range_def getitem_def ZeroCross_init_def py_slice_def
      supports_amplitude_def len_zc_def fl_ge_def fl_gt_def fl_sub_def np_append_def)

section \<open>Slopes\<close>

lemma length_np_diff: "length (np_diff xs) = length xs - 1"
  by (induction xs rule: np_diff.induct) auto

lemma clip_slope:
  assumes "0 \<le> m"
  shows "\<exists>r. (let w = (if fl_gt (fl_abs v) (Fin m) then Fin 0 else fl_abs v)
              in if fl_isnan w then Fin 0 else w) = Fin r \<and> 0 \<le> r \<and> r \<le> m"
  using assms by (cases v) (auto simp: fl_gt_def Let_def)

text \<open>
  Claim C3, as amended. For times and freqs of equal length at least 2 and a finite
  \<open>max_slope\<close> that is not negative, the slopes are a sequence of the same length in which
  every value is finite, not negative and not above \<open>max_slope\<close>. The arrays may hold any
  doubles (infinities and NaN included) and the times need not ascend: the last three
  steps (absolute value, zeroing above \<open>max_slope\<close>, zeroing NaN) bound whatever the
  division produced.
\<close>

theorem slopes_bounded:
  assumes len: "length x = length y" and two: "2 \<le> length x" and m: "0 \<le> m"
  shows "\<exists>s. slopes x y (Fin m) = Inr s \<and> length s = length x
           \<and> (\<forall>v\<in>set s. \<exists>r. v = Fin r \<and> 0 \<le> r \<and> r \<le> m)"
proof -
  define y_octaves where
    "y_octaves = (if \<not> list_ex fl_truthy y then y else nan_to_zero (map fl_log2 y))"
  define q where "q = map2 (\<lambda>u v. fl_div u v) (np_diff y_octaves) (np_diff x)"
  have ly: "length y_octaves = length y"
    by (simp add: y_octaves_def nan_to_zero_def)
  have lq: "length q = length x - 1"
    by (simp add: q_def length_np_diff ly len)
  then have qne: "q \<noteq> []" using two by auto
  have dv: "np_divide (np_diff y_octaves) (np_diff x) = Inr q"
    by (simp add: np_divide_def q_def length_np_diff ly len)
  define fin where "fin = (\<lambda>v. let w = (if fl_gt (fl_abs v) (Fin m) then Fin 0 else fl_abs v)
                               in if fl_isnan w then Fin 0 else w)"
  have nx: "\<not> (length x = 0 \<or> length y = 0)" "length x \<noteq> 1"
    using two len by auto
  have "slopes x y (Fin m) =
          Inr (nan_to_zero (map (\<lambda>v. if fl_gt v (Fin m) then Fin 0 else v)
                 (map fl_abs (np_append q (last q)))))"
    unfolding slopes_def Let_def y_octaves_def [symmetric]
    by (simp only: nx if_False dv sum.case qne)
  also have "nan_to_zero (map (\<lambda>v. if fl_gt v (Fin m) then Fin 0 else v)
                 (map fl_abs (np_append q (last q)))) = map fin (q @ [last q])"
    by (simp add: nan_to_zero_def np_append_def fin_def Let_def)
  finally have res: "slopes x y (Fin m) = Inr (map fin (q @ [last q]))" .
  have "length (map fin (q @ [last q])) = length x"
    using lq two by simp
  moreover have "\<forall>v\<in>set (map fin (q @ [last q])). \<exists>r. v = Fin r \<and> 0 \<le> r \<and> r \<le> m"
    using clip_slope [OF m] by (auto simp: fin_def)
  ultimately show ?thesis using res by blast
qed

theorem slopes_bounded_witness:
  "length [Fin 0, Fin 1, Fin 1] = length [Fin 1, Fin 2, Fin 0] \<and> 2 \<le> length [Fin 0, Fin 1, Fin 1]
   \<and> (0 :: real) \<le> 5000
   \<and> (\<exists>s. slopes [Fin 0, Fin 1, Fin 1] [Fin 1, Fin 2, Fin 0] (Fin 5000) = Inr s \<and> length s = 3
          \<and> (\<forall>v\<in>set s. \<exists>r. v = Fin r \<and> 0 \<le> r \<and> r \<le> 5000))"
proof -
  have h1: "length [Fin 0, Fin 1, Fin 1] = length [Fin 1, Fin 2, Fin 0]" by simp
  have h2: "2 \<le> length [Fin 0, Fin 1, Fin 1]" by simp
  have h3: "(0 :: real) \<le> 5000" by simp
  show ?thesis
    using h1 h2 h3 slopes_bounded [OF h1 h2 h3] by (simp add: numeral_3_eq_3)
qed

text \<open>
  Claim C3 as stated, for every \<open>max_slope\<close>, fails at a negative one: every slope is
  above it after the absolute value, so every slope is zeroed, and 0 exceeds \<open>max_slope\<close>.
  It fails at an infinite one too: nothing is above it, and the infinite slope of two
  dots at the same time stays.
\<close>

theorem slopes_max_slope_counterexample:
  "slopes [Fin 0, Fin 1] [Fin 1, Fin 2] (Fin (- 1)) = Inr [Fin 0, Fin 0]
   \<and> \<not> fl_le (Fin 0) (Fin (- 1))
   \<and> slopes [Fin 0, Fin 0] [Fin 1, Fin 2] PInf = Inr [PInf, PInf]
   \<and> \<not> fl_isfinite PInf"
  by (simp add: slopes_def nan_to_zero_def np_divide_def np_append_def fl_sub_def fl_gt_def)

section \<open>The header notes\<close>

lemma run_result:
  "run rnd fs zc fname divratio =
     (case (if \<not> path_exists fs (dirname fname) then makedirs fs (dirname fname) else Inr fs) of
        Inl e \<Rightarrow> Inl e
      | Inr fs' \<Rightarrow>
          Inr (fs', \<lparr>out_fname = fname, hdr_divratio = divratio, header = header_fields zc,
                     intervals = map astype_int (map (fl_round rnd)
                       (np_diff (map (\<lambda>t. fl_round rnd (fl_mul t (Fin 1000000)))
                          (times_zc zc))))\<rparr>))"
  by (simp add: run_def Let_def split: sum.splits)

text \<open>A run reaches the writer whenever the output directory exists.\<close>

lemma run_returns:
  "path_exists fs (dirname fname) \<Longrightarrow> \<exists>w. run rnd fs zc fname divratio = Inr (fs, w)"
  by (simp add: run_result)

text \<open>
  Claim C6. When the first note of the metadata is non-empty (true as a Python value),
  the writer keeps it and sets the second note to the application signature; when it is
  empty (missing, the empty string, or another false value), the writer sets the first
  note to the signature and leaves the second note empty. The notes are derived before
  the output directory is looked at; every run that reaches the writer hands it this
  header, and a run stops before only when \<^verbatim>\<open>os.makedirs\<close> raises.
\<close>

theorem run_notes:
  "(truthy (md_get (metadata zc) ''note1'' (PyStr '''')) \<longrightarrow>
      hdr_note1 (header_fields zc) = md_get (metadata zc) ''note1'' (PyStr '''') \<and>
      hdr_note2 (header_fields zc) = PyStr ''Myotisoft ZCANT'')
   \<and> (\<not> truthy (md_get (metadata zc) ''note1'' (PyStr '''')) \<longrightarrow>
      hdr_note1 (header_fields zc) = PyStr ''Myotisoft ZCANT'' \<and>
      hdr_note2 (header_fields zc) = PyStr '''')
   \<and> (\<forall>fs' w. run rnd fs zc fname divratio = Inr (fs', w) \<longrightarrow> header w = header_fields zc)
   \<and> (\<forall>e. run rnd fs zc fname divratio = Inl e \<longrightarrow>
         \<not> path_exists fs (dirname fname) \<and> makedirs fs (dirname fname) = Inl e)"
  by (auto simp: run_result header_fields_def Let_def split: sum.splits if_splits)

theorem run_notes_witness:
  "hdr_note1 (header_fields \<lparr>times_zc = [], freqs = [], amplitudes = None,
                   metadata = [''note1'' \<mapsto> PyStr ''Myotis lucifugus'']\<rparr>)
     = PyStr ''Myotis lucifugus''
   \<and> hdr_note2 (header_fields \<lparr>times_zc = [], freqs = [], amplitudes = None,
                   metadata = [''note1'' \<mapsto> PyStr ''Myotis lucifugus'']\<rparr>)
     = PyStr ''Myotisoft ZCANT''
   \<and> hdr_note1 (header_fields \<lparr>times_zc = [], freqs = [], amplitudes = None,
                   metadata = [''note1'' \<mapsto> PyStr '''']\<rparr>)
     = PyStr ''Myotisoft ZCANT''
   \<and> hdr_note2 (header_fields \<lparr>times_zc = [], freqs = [], amplitudes = None,
                   metadata = Map.empty\<rparr>)
     = PyStr ''''
   \<and> run Fin \<lparr>paths = [''/data''], refused = []\<rparr>
         \<lparr>times_zc = [], freqs = [], amplitudes = None,
          metadata = [''note1'' \<mapsto> PyStr ''Myotis lucifugus'']\<rparr> ''/data/out.00#'' 8
     = Inr (\<lparr>paths = [''/data''], refused = []\<rparr>,
            \<lparr>out_fname = ''/data/out.00#'', hdr_divratio = 8,
             header = \<lparr>hdr_timestamp = PyNone, hdr_species = PyStr '''',
                       hdr_note1 = PyStr ''Myotis lucifugus'',
                       hdr_note2 = PyStr ''Myotisoft ZCANT'', hdr_guano = None\<rparr>,
             intervals = []\<rparr>)
   \<and> run Fin \<lparr>paths = [''/data''], refused = []\<rparr>
         \<lparr>times_zc = [], freqs = [], amplitudes = None,
          metadata = [''note1'' \<mapsto> PyStr ''Myotis lucifugus'']\<rparr> ''out.00#'' 8
     = Inl (OSError '''')"
proof -
  let ?fs = "\<lparr>paths = [''/data''], refused = []\<rparr>"
  let ?zc = "\<lparr>times_zc = [], freqs = [], amplitudes = None,
               metadata = [''note1'' \<mapsto> PyStr ''Myotis lucifugus'']\<rparr>"
  have d: "dirname ''/data/out.00#'' = ''/data''" "dirname ''out.00#'' = ''''"
    by (simp_all add: dirname_def)
  show ?thesis
    using
      run_notes [of ?zc Fin ?fs "''/data/out.00#''" 8]
      run_notes [of "\<lparr>times_zc = [], freqs = [], amplitudes = None,
                   metadata = [''note1'' \<mapsto> PyStr '''']\<rparr>" Fin ?fs "''/data/out.00#''" 8]
      run_notes [of "\<lparr>times_zc = [], freqs = [], amplitudes = None,
                   metadata = Map.empty\<rparr>" Fin ?fs "''/data/out.00#''" 8]
    by (simp add: run_result d path_exists_def makedirs_def header_fields_def md_get_def
        supports_amplitude_def)
qed

section \<open>The body of intervals\<close>

lemma np_diff_nth:
  "i < length xs - 1 \<Longrightarrow> np_diff xs ! i = fl_sub (xs ! Suc i) (xs ! i)"
proof (induction xs arbitrary: i rule: np_diff.induct)
  case (1 a b xs)
  then show ?case by (cases i) simp_all
qed simp_all

lemma np_diff_conv_nth:
  "np_diff xs = map (\<lambda>i. fl_sub (xs ! Suc i) (xs ! i)) [0..<length xs - 1]"
  by (rule nth_equalityI) (simp_all add: length_np_diff np_diff_nth)

lemma c_cast_trunc: "(if 0 \<le> r then \<lfloor>r\<rfloor> else \<lceil>r\<rceil>) = trunc_toward_zero (r :: real)"
  by (simp add: trunc_toward_zero_def ceiling_def)

lemma astype_int_truncated: "astype_int v = truncated v"
proof (cases v)
  case (Fin r)
  show ?thesis
    unfolding Fin astype_int.simps c_cast_trunc Let_def truncated_def by simp
qed (simp_all add: truncated_def)

text \<open>Truncation toward zero keeps the sign and drops less than one unit of magnitude.\<close>

lemma trunc_toward_zero_bounds:
  "\<bar>real_of_int (trunc_toward_zero r)\<bar> \<le> \<bar>r\<bar>"
  "\<bar>r\<bar> < \<bar>real_of_int (trunc_toward_zero r)\<bar> + 1"
  "0 \<le> r \<Longrightarrow> 0 \<le> trunc_toward_zero r"
  "r \<le> 0 \<Longrightarrow> trunc_toward_zero r \<le> 0"
  unfolding trunc_toward_zero_def by (auto; linarith)+

text \<open>
  Claim C7. The body handed to the writer is the sequence of successive differences of
  the times in microseconds (times multiplied by 1,000,000), each difference truncated
  toward zero to an integer, not rounded. The product and the difference are the float64
  operations, for every rounding \<open>rnd\<close> of exact results to doubles; finite times; a
  difference that is not finite or outside the 64-bit integer range has no defined
  conversion.
\<close>

theorem run_intervals_truncated:
  assumes times: "times_zc zc = map Fin ts"
    and ok: "run rnd fs zc fname divratio = Inr (fs', w)"
  shows "intervals w = spec_intervals_us rnd ts"
proof -
  define us where "us = map (\<lambda>t. fl_round rnd (fl_mul t (Fin 1000000))) (map Fin ts)"
  have len: "length us = length ts" by (simp add: us_def)
  have us: "us ! i = rnd (ts ! i * 1000000)" if "i < length ts" for i
    using that by (simp add: us_def fl_round_def)
  have d: "np_diff us = map (\<lambda>i. fl_sub (us ! Suc i) (us ! i)) [0..<length ts - 1]"
    using np_diff_conv_nth [of us] by (simp only: len)
  from ok have "intervals w = map astype_int (map (fl_round rnd) (np_diff us))"
    by (auto simp: run_result times us_def split: sum.splits if_splits)
  also have "\<dots> = map (\<lambda>i. truncated (fl_round rnd (fl_sub (us ! Suc i) (us ! i))))
                      [0..<length ts - 1]"
    by (simp only: d map_map comp_def astype_int_truncated)
  also have "\<dots> = spec_intervals_us rnd ts"
    unfolding spec_intervals_us_def
  proof (rule map_cong [OF refl])
    fix i assume "i \<in> set [0..<length ts - 1]"
    then have "i < length ts" "Suc i < length ts" by auto
    then show "truncated (fl_round rnd (fl_sub (us ! Suc i) (us ! i)))
               = truncated (fl_round rnd (fl_sub (rnd (ts ! Suc i * 1000000))
                                                  (rnd (ts ! i * 1000000))))"
      by (simp only: us)
  qed
  finally show ?thesis .
qed

theorem run_intervals_truncated_witness:
  "run Fin \<lparr>paths = [''/data''], refused = []\<rparr>
       \<lparr>times_zc = map Fin [0, 1 / 1048576, 1 / 262144],
        freqs = [Fin 40, Fin 41, Fin 42], amplitudes = None, metadata = Map.empty\<rparr>
       ''/data/out.00#'' 8
     = Inr (\<lparr>paths = [''/data''], refused = []\<rparr>,
            \<lparr>out_fname = ''/data/out.00#'', hdr_divratio = 8,
             header = \<lparr>hdr_timestamp = PyNone, hdr_species = PyStr '''',
                       hdr_note1 = PyStr ''Myotisoft ZCANT'', hdr_note2 = PyStr '''',
                       hdr_guano = None\<rparr>,
             intervals = [Some 0, Some 2]\<rparr>)
   \<and> spec_intervals_us Fin [0, 1 / 1048576, 1 / 262144] = [Some 0, Some 2]
   \<and> run (\<lambda>r. if r = 129127208515966859375 / 18446744073709551616 then Fin 7 else Fin r)
       \<lparr>paths = [''/data''], refused = []\<rparr>
       \<lparr>times_zc = map Fin [0, 8264141345021879 / 1180591620717411303424],
        freqs = [Fin 40, Fin 41], amplitudes = None, metadata = Map.empty\<rparr>
       ''/data/out.00#'' 8
     = Inr (\<lparr>paths = [''/data''], refused = []\<rparr>,
            \<lparr>out_fname = ''/data/out.00#'', hdr_divratio = 8,
             header = \<lparr>hdr_timestamp = PyNone, hdr_species = PyStr '''',
                       hdr_note1 = PyStr ''Myotisoft ZCANT'', hdr_note2 = PyStr '''',
                       hdr_guano = None\<rparr>,
             intervals = [Some 7]\<rparr>)
   \<and> spec_intervals_us
         (\<lambda>r. if r = 129127208515966859375 / 18446744073709551616 then Fin 7 else Fin r)
         [0, 8264141345021879 / 1180591620717411303424]
     = [Some 7]"
proof -
  let ?fs = "\<lparr>paths = [''/data''], refused = []\<rparr>"
  let ?hdr = "\<lparr>hdr_timestamp = PyNone, hdr_species = PyStr '''',
               hdr_note1 = PyStr ''Myotisoft ZCANT'', hdr_note2 = PyStr '''',
               hdr_guano = None\<rparr>"
  let ?z1 = "\<lparr>times_zc = map Fin [0, 1 / 1048576, 1 / 262144],
               freqs = [Fin 40, Fin 41, Fin 42], amplitudes = None, metadata = Map.empty\<rparr>"
  let ?z2 = "\<lparr>times_zc = map Fin [0, 8264141345021879 / 1180591620717411303424],
               freqs = [Fin 40, Fin 41], amplitudes = None, metadata = Map.empty\<rparr>"
  let ?rnd = "\<lambda>r::real. if r = 129127208515966859375 / 18446744073709551616 then Fin 7
                        else Fin r"
  have d: "dirname ''/data/out.00#'' = ''/data''"
    by (simp add: dirname_def)
  have t1: "times_zc ?z1 = map Fin [0, 1 / 1048576, 1 / 262144]"
    and t2: "times_zc ?z2 = map Fin [0, 8264141345021879 / 1180591620717411303424]"
    by simp_all
  have r1: "run Fin ?fs ?z1 ''/data/out.00#'' 8
            = Inr (?fs, \<lparr>out_fname = ''/data/out.00#'', hdr_divratio = 8, header = ?hdr,
                          intervals = [Some 0, Some 2]\<rparr>)"
    by (simp add: run_result d path_exists_def header_fields_def md_get_def
        supports_amplitude_def fl_round_def fl_sub_def Let_def)
  have r2: "run ?rnd ?fs ?z2 ''/data/out.00#'' 8
            = Inr (?fs, \<lparr>out_fname = ''/data/out.00#'', hdr_divratio = 8, header = ?hdr,
                          intervals = [Some 7]\<rparr>)"
    by (simp add: run_result d path_exists_def header_fields_def md_get_def
        supports_amplitude_def fl_round_def fl_sub_def Let_def)
  show ?thesis
    using r1 r2 run_intervals_truncated [OF t1 r1] run_intervals_truncated [OF t2 r2]
    by simp
qed

section \<open>Smoothing and values that are not finite\<close>

lemma nan_to_zero_idem: "nan_to_zero (nan_to_zero xs) = nan_to_zero xs"
  by (induction xs) (auto simp: nan_to_zero_def)

lemma length_nan_to_zero: "length (nan_to_zero xs) = length xs"
  by (simp add: nan_to_zero_def)

lemma smooth_nan_to_zero: "smooth xs = smooth (nan_to_zero xs)"
  by (simp add: smooth_def Let_def nan_to_zero_idem length_nan_to_zero)

text \<open>A sum, a difference or a third of a value that is not finite is not finite.\<close>

lemma fl_add_not_finite:
  "\<not> fl_isfinite a \<or> \<not> fl_isfinite b \<Longrightarrow> \<not> fl_isfinite (fl_add a b)"
  by (cases a; cases b) auto

lemma fl_sub_not_finite:
  "\<not> fl_isfinite a \<or> \<not> fl_isfinite b \<Longrightarrow> \<not> fl_isfinite (fl_sub a b)"
  by (cases a; cases b) (auto simp: fl_sub_def)

lemma fl_div_not_finite:
  "\<not> fl_isfinite a \<Longrightarrow> \<not> fl_isfinite (fl_div a (Fin (real 3)))"
  by (cases a) auto

text \<open>From a value that is not finite on, no cumulative sum is finite.\<close>

lemma length_cumsum_from: "length (cumsum_from acc xs) = length xs"
  by (induction xs arbitrary: acc) auto

lemma cumsum_from_acc_not_finite:
  "\<not> fl_isfinite acc \<Longrightarrow> k < length xs \<Longrightarrow> \<not> fl_isfinite (cumsum_from acc xs ! k)"
proof (induction xs arbitrary: acc k)
  case Nil
  then show ?case by simp
next
  case (Cons x xs)
  have "\<not> fl_isfinite (fl_add acc x)" using Cons.prems(1) by (simp add: fl_add_not_finite)
  with Cons show ?case by (cases k) auto
qed

lemma cumsum_from_not_finite:
  "p < length xs \<Longrightarrow> \<not> fl_isfinite (xs ! p) \<Longrightarrow> p \<le> k \<Longrightarrow> k < length xs
   \<Longrightarrow> \<not> fl_isfinite (cumsum_from acc xs ! k)"
proof (induction xs arbitrary: acc p k)
  case Nil
  then show ?case by simp
next
  case (Cons x xs)
  show ?case
  proof (cases p)
    case 0
    with Cons.prems have nf: "\<not> fl_isfinite (fl_add acc x)" by (simp add: fl_add_not_finite)
    show ?thesis
    proof (cases k)
      case 0
      with nf show ?thesis by simp
    next
      case (Suc k')
      with nf Cons.prems show ?thesis by (simp add: cumsum_from_acc_not_finite)
    qed
  next
    case (Suc p')
    with Cons.prems obtain k' where "k = Suc k'" by (cases k) auto
    with Suc Cons show ?thesis by auto
  qed
qed

text \<open>
  The result of smooth on more than three values, index by index: the window sums are
  differences of the cumulative sums of the input with its NaNs (and nothing else) set to
  zero; the first and the last average are repeated at the ends.
\<close>

lemma smooth_long_nth:
  assumes n: "3 < length xs" and j: "j < length xs"
  shows "length (smooth xs) = length xs"
    and "smooth xs ! j =
           fl_div (fl_sub ((Fin 0 # cumsum_from (Fin 0) (nan_to_zero xs))
                             ! (min (j - 1) (length xs - 3) + 3))
                          ((Fin 0 # cumsum_from (Fin 0) (nan_to_zero xs))
                             ! min (j - 1) (length xs - 3)))
                  (Fin (real 3))"
proof -
  define c where "c = Fin 0 # cumsum_from (Fin 0) (nan_to_zero xs)"
  define sm where "sm = map (\<lambda>v. fl_div v (Fin (real 3)))
                          (map2 (\<lambda>a b. fl_sub a b) (drop 3 c) (take (length c - 3) c))"
  have lc: "length c = length xs + 1"
    by (simp add: c_def length_cumsum_from length_nan_to_zero)
  have lsm: "length sm = length xs - 2" using n by (simp add: sm_def lc)
  then have smne: "sm \<noteq> []" using n by auto
  have smn: "sm ! i = fl_div (fl_sub (c ! (i + 3)) (c ! i)) (Fin (real 3))"
    if "i < length xs - 2" for i
    using that n by (simp add: sm_def lc add.commute)
  have cs: "np_cumsum (np_insert (nan_to_zero xs) 0 (Fin 0)) = c"
    by (simp add: np_insert_def c_def)
  have ins0: "np_insert sm 0 (hd sm) = hd sm # sm"
    by (simp add: np_insert_def)
  have ins1: "np_insert (hd sm # sm) (- 1) (last (hd sm # sm)) = hd sm # sm @ [last sm]"
  proof -
    obtain ys y where sm: "sm = ys @ [y]"
      using smne by (cases sm rule: rev_cases) auto
    have k: "nat (if (- 1 :: int) < 0 then - 1 + int (length ((hd sm # ys) @ [y])) else - 1)
             = length (hd sm # ys)"
      by simp
    have "np_insert ((hd sm # ys) @ [y]) (- 1) y = (hd sm # ys) @ [y, y]"
      unfolding np_insert_def Let_def k by simp
    then show ?thesis by (simp add: sm)
  qed
  have "\<not> length xs \<le> 3" using n by simp
  then have out: "smooth xs = hd sm # sm @ [last sm]"
    unfolding smooth_def Let_def
    by (simp only: if_False cs sm_def [symmetric] ins0 ins1)
  show "length (smooth xs) = length xs" using n by (simp add: out lsm)
  have "(hd sm # sm @ [last sm]) ! j = sm ! min (j - 1) (length xs - 3)"
  proof (cases j)
    case 0
    then show ?thesis using smne by (simp add: hd_conv_nth)
  next
    case (Suc j')
    show ?thesis
    proof (cases "j' < length sm")
      case True
      then have "min j' (length xs - 3) = j'" using lsm n by simp
      with True show ?thesis using Suc by (simp add: nth_append)
    next
      case False
      with j Suc lsm n have jl: "j' = length sm" by simp
      then have "min j' (length xs - 3) = length sm - 1" using lsm n by simp
      with jl show ?thesis
        using Suc smne by (simp add: nth_append last_conv_nth)
    qed
  qed
  moreover have "min (j - 1) (length xs - 3) < length xs - 2" using n by auto
  ultimately show "smooth xs ! j =
           fl_div (fl_sub ((Fin 0 # cumsum_from (Fin 0) (nan_to_zero xs))
                             ! (min (j - 1) (length xs - 3) + 3))
                          ((Fin 0 # cumsum_from (Fin 0) (nan_to_zero xs))
                             ! min (j - 1) (length xs - 3)))
                  (Fin (real 3))"
    by (simp only: out smn c_def)
qed

text \<open>
  Claim C4, as amended. smooth replaces every NaN input value by \<open>0.0\<close> before the moving
  average, so no NaN input value contributes to any output: the result is that of the
  input with its NaNs set to \<open>0.0\<close>. An infinite input value is not replaced: on an input
  longer than the window, an infinity at index \<open>p\<close> enters the cumulative sum and no output
  from index \<open>p - 1\<close> on is finite.
\<close>

theorem smooth_replaces_nan_only:
  "smooth xs = smooth (nan_to_zero xs)
   \<and> (3 < length xs \<and> p < length xs \<and> (xs ! p = PInf \<or> xs ! p = NInf)
        \<and> j < length xs \<and> p \<le> j + 1
      \<longrightarrow> length (smooth xs) = length xs \<and> \<not> fl_isfinite (smooth xs ! j))"
proof (intro conjI impI)
  show "smooth xs = smooth (nan_to_zero xs)" by (rule smooth_nan_to_zero)
next
  assume a: "3 < length xs \<and> p < length xs \<and> (xs ! p = PInf \<or> xs ! p = NInf)
        \<and> j < length xs \<and> p \<le> j + 1"
  then have "3 < length xs" "j < length xs" by simp_all
  then show "length (smooth xs) = length xs" by (rule smooth_long_nth(1))
next
  assume a: "3 < length xs \<and> p < length xs \<and> (xs ! p = PInf \<or> xs ! p = NInf)
        \<and> j < length xs \<and> p \<le> j + 1"
  let ?z = "nan_to_zero xs"
  let ?i = "min (j - 1) (length xs - 3)"
  from a have zp: "\<not> fl_isfinite (?z ! p)" by (auto simp: nan_to_zero_def)
  from a have "p \<le> ?i + 2" "?i + 2 < length ?z" by (auto simp: length_nan_to_zero)
  with a zp have "\<not> fl_isfinite (cumsum_from (Fin 0) ?z ! (?i + 2))"
    by (intro cumsum_from_not_finite [of p]) (auto simp: length_nan_to_zero)
  moreover have "(Fin 0 # cumsum_from (Fin 0) ?z) ! (?i + 3) = cumsum_from (Fin 0) ?z ! (?i + 2)"
    by (simp add: numeral_3_eq_3)
  ultimately have "\<not> fl_isfinite ((Fin 0 # cumsum_from (Fin 0) ?z) ! (?i + 3))" by simp
  then have nf: "\<not> fl_isfinite (fl_div (fl_sub ((Fin 0 # cumsum_from (Fin 0) ?z) ! (?i + 3))
                                 ((Fin 0 # cumsum_from (Fin 0) ?z) ! ?i)) (Fin (real 3)))"
    by (intro fl_div_not_finite fl_sub_not_finite) simp
  from a have "3 < length xs" "j < length xs" by simp_all
  then have e: "smooth xs ! j =
      fl_div (fl_sub ((Fin 0 # cumsum_from (Fin 0) ?z) ! (?i + 3))
                     ((Fin 0 # cumsum_from (Fin 0) ?z) ! ?i)) (Fin (real 3))"
    by (rule smooth_long_nth(2))
  show "\<not> fl_isfinite (smooth xs ! j)" unfolding e by (fact nf)
qed
theorem smooth_replaces_nan_only_witness:
  "smooth [NaN, Fin 3, Fin 3, Fin 6, NaN] = smooth [Fin 0, Fin 3, Fin 3, Fin 6, Fin 0]
   \<and> 3 < length [Fin 0, NInf, Fin 0, Fin 0, Fin 0]
   \<and> [Fin 0, NInf, Fin 0, Fin 0, Fin 0] ! 1 = NInf
   \<and> length (smooth [Fin 0, NInf, Fin 0, Fin 0, Fin 0]) = 5
   \<and> \<not> fl_isfinite (smooth [Fin 0, NInf, Fin 0, Fin 0, Fin 0] ! 0)
   \<and> \<not> fl_isfinite (smooth [Fin 0, NInf, Fin 0, Fin 0, Fin 0] ! 4)
   \<and> 3 < length [Fin 1, Fin 2, Fin 3, PInf]
   \<and> [Fin 1, Fin 2, Fin 3, PInf] ! 3 = PInf
   \<and> \<not> fl_isfinite (smooth [Fin 1, Fin 2, Fin 3, PInf] ! 2)"
proof -
  have n: "nan_to_zero [NaN, Fin 3, Fin 3, Fin 6, NaN] = [Fin 0, Fin 3, Fin 3, Fin 6, Fin 0]"
    by (simp add: nan_to_zero_def)
  have a: "3 < length [Fin 0, NInf, Fin 0, Fin 0, Fin 0] \<and> 1 < length [Fin 0, NInf, Fin 0, Fin 0, Fin 0]
        \<and> ([Fin 0, NInf, Fin 0, Fin 0, Fin 0] ! 1 = PInf \<or> [Fin 0, NInf, Fin 0, Fin 0, Fin 0] ! 1 = NInf)
        \<and> 0 < length [Fin 0, NInf, Fin 0, Fin 0, Fin 0] \<and> (1::nat) \<le> 0 + 1"
    by simp
  have b: "3 < length [Fin 0, NInf, Fin 0, Fin 0, Fin 0] \<and> 1 < length [Fin 0, NInf, Fin 0, Fin 0, Fin 0]
        \<and> ([Fin 0, NInf, Fin 0, Fin 0, Fin 0] ! 1 = PInf \<or> [Fin 0, NInf, Fin 0, Fin 0, Fin 0] ! 1 = NInf)
        \<and> 4 < length [Fin 0, NInf, Fin 0, Fin 0, Fin 0] \<and> (1::nat) \<le> 4 + 1"
    by simp
  have c: "3 < length [Fin 1, Fin 2, Fin 3, PInf] \<and> 3 < length [Fin 1, Fin 2, Fin 3, PInf]
        \<and> ([Fin 1, Fin 2, Fin 3, PInf] ! 3 = PInf \<or> [Fin 1, Fin 2, Fin 3, PInf] ! 3 = NInf)
        \<and> 2 < length [Fin 1, Fin 2, Fin 3, PInf] \<and> (3::nat) \<le> 2 + 1"
    by simp
  note t0 = smooth_replaces_nan_only [of "[NaN, Fin 3, Fin 3, Fin 6, NaN]" 0 0, THEN conjunct1]
  note ta = smooth_replaces_nan_only [of "[Fin 0, NInf, Fin 0, Fin 0, Fin 0]" 1 0,
      THEN conjunct2, THEN mp, OF a]
  note tb = smooth_replaces_nan_only [of "[Fin 0, NInf, Fin 0, Fin 0, Fin 0]" 1 4,
      THEN conjunct2, THEN mp, OF b]
  note tc = smooth_replaces_nan_only [of "[Fin 1, Fin 2, Fin 3, PInf]" 3 2,
      THEN conjunct2, THEN mp, OF c]
  have l: "length [Fin 0, NInf, Fin 0, Fin 0, Fin 0] = 5" by simp
  show ?thesis
    using t0 ta tb tc by (simp only: n l) simp
qed

text \<open>
  Claim C4 as stated, for every value that is not finite, fails at an infinite input: it
  is not replaced, it enters the cumulative sum, and the outputs are infinite or NaN,
  where the input with its non-finite values replaced by \<open>0.0\<close> gives zeros.
\<close>

theorem smooth_infinity_counterexample:
  "3 < length [PInf, Fin 0, Fin 0, Fin 0]
   \<and> smooth [PInf, Fin 0, Fin 0, Fin 0] = [PInf, PInf, NaN, NaN]
   \<and> smooth (nonfinite_to_zero [PInf, Fin 0, Fin 0, Fin 0]) = [Fin 0, Fin 0, Fin 0, Fin 0]
   \<and> smooth [PInf, Fin 0, Fin 0, Fin 0] \<noteq> smooth (nonfinite_to_zero [PInf, Fin 0, Fin 0, Fin 0])
   \<and> smooth [Fin 0, NInf, Fin 0, Fin 0] = [NInf, NInf, NInf, NInf]
   \<and> smooth (nonfinite_to_zero [Fin 0, NInf, Fin 0, Fin 0]) = [Fin 0, Fin 0, Fin 0, Fin 0]"
  by (simp add: smooth_def nan_to_zero_def nonfinite_to_zero_def np_insert_def fl_sub_def)

end
